theory Spec2Isabelle
  imports Main "HOL-Library.AList"
begin

unbundle bit_operations_syntax

section \<open>Host definitions used by the process controller\<close>

text \<open>
  \<^verbatim>\<open>DebuggerCore.cpp\<close> (the OpenBSD back end) reads a raw wait status only through
  the macros of the host's \<^verbatim>\<open>sys/wait.h\<close>. They are written out here as the host
  defines them, on the C \<^verbatim>\<open>int\<close> read as a two's complement number: the low seven
  bits are the termination signal, the value 0177 there marks a stop, and bits 8 to 15
  carry the stop signal. No arithmetic is done on a status, so \<^typ>\<open>int\<close> with the
  bitwise operations is exact.
\<close>

definition W_STATUS :: "int \<Rightarrow> int" where
  "W_STATUS x = x AND 127"

definition WIFSTOPPED :: "int \<Rightarrow> bool" where
  "WIFSTOPPED x = (x AND 255 = 127)"

definition WSTOPSIG :: "int \<Rightarrow> int" where
  "WSTOPSIG x = drop_bit 8 x AND 255"

definition WIFSIGNALED :: "int \<Rightarrow> bool" where
  "WIFSIGNALED x = (W_STATUS x \<noteq> 127 \<and> W_STATUS x \<noteq> 0)"

definition WTERMSIG :: "int \<Rightarrow> int" where
  "WTERMSIG x = W_STATUS x"

definition SIGTRAP :: int where
  "SIGTRAP = 5"

definition SIGSTOP :: int where
  "SIGSTOP = 17"

definition WAIT_ANY :: int where
  "WAIT_ANY = - 1"

text \<open>\<^verbatim>\<open>resume_code\<close> (DebuggerCore.cpp, anonymous namespace).\<close>

definition resume_code :: "int \<Rightarrow> int" where
  "resume_code status =
     (if WIFSIGNALED status then WTERMSIG status
      else if WIFSTOPPED status then WSTOPSIG status
      else 0)"

section \<open>The controller's state and the calls it issues\<close>

text \<open>
  The requests of \<^verbatim>\<open>ptrace\<close> the file uses, and the third argument of a call: a
  plain address, or the address of one of the two register buffers of a
  \<^verbatim>\<open>PlatformState\<close>.
\<close>

datatype ptrace_request =
    PT_TRACE_ME | PT_READ_D | PT_WRITE_D | PT_CONTINUE | PT_KILL | PT_ATTACH
  | PT_DETACH | PT_STEP | PT_GETREGS | PT_SETREGS | PT_GETFPREGS | PT_SETFPREGS

datatype caddr_t = Addr nat | Regs_buffer | Fpregs_buffer

text \<open>
  Every effect an operation has outside the controller object is recorded, in order:
  \<^verbatim>\<open>ptrace(request, pid, addr, data)\<close>, \<^verbatim>\<open>::kill(pid, sig)\<close>,
  \<^verbatim>\<open>native::waitpid(pid, &status, options)\<close>,
  \<^verbatim>\<open>native::waitpid_timeout(pid, &status, options, msecs, timeout)\<close>,
  \<^verbatim>\<open>fork()\<close> and the call of the breakpoint collaborator
  \<^verbatim>\<open>clear_breakpoints()\<close>. What the host answers is an argument of the operation.
\<close>

datatype os_call =
    Ptrace ptrace_request int caddr_t int
  | Kill_signal int int
  | Waitpid int int
  | Waitpid_timeout int int int
  | Fork
  | Clear_breakpoints

text \<open>
  Modelled from the spec: \<^verbatim>\<open>thread_info\<close> (declared in the absent
  \<^verbatim>\<open>DebuggerCore.h\<close>) holds the last raw wait status of a thread, the only
  member the code touches; its default constructor is taken to leave the status 0.
  \<^verbatim>\<open>threads_\<close> is a Qt hash from thread id to \<^verbatim>\<open>thread_info\<close>: an association
  list with distinct keys, whose order stands for the (unspecified) iteration order.
  The data members \<^verbatim>\<open>pid_\<close>, \<^verbatim>\<open>active_thread_\<close>, \<^verbatim>\<open>threads_\<close> and
  \<^verbatim>\<open>page_size_\<close> are the fields \<open>pid_m\<close>, \<open>active_thread_m\<close>, \<open>threads_m\<close> and
  \<open>page_size_m\<close> (a name may not end in an underscore here).
\<close>

record thread_info =
  status :: int

definition thread_info_default :: thread_info where
  "thread_info_default = \<lparr>status = 0\<rparr>"

type_synonym threadmap_t = "(int \<times> thread_info) list"

record DebuggerCore =
  page_size_m :: nat
  pid_m :: int
  active_thread_m :: int
  threads_m :: threadmap_t

text \<open>\<^verbatim>\<open>QHash::insert\<close>: a value already stored under the key is replaced.\<close>

definition insert_thread :: "int \<Rightarrow> thread_info \<Rightarrow> threadmap_t \<Rightarrow> threadmap_t" where
  "insert_thread tid ti ts = AList.update tid ti ts"

text \<open>
  \<^verbatim>\<open>QHash::operator[]\<close>: the stored value, and the table itself, which gains a
  default-constructed entry when the key was unknown.
\<close>

definition index_thread :: "int \<Rightarrow> threadmap_t \<Rightarrow> thread_info \<times> threadmap_t" where
  "index_thread tid ts =
     (case map_of ts tid of
        Some ti \<Rightarrow> (ti, ts)
      | None \<Rightarrow> (thread_info_default, AList.update tid thread_info_default ts))"

text \<open>\<^verbatim>\<open>threads_[tid].status = s\<close>.\<close>

definition set_thread_status :: "int \<Rightarrow> int \<Rightarrow> threadmap_t \<Rightarrow> threadmap_t" where
  "set_thread_status tid s ts =
     (case index_thread tid ts of
        (ti, ts') \<Rightarrow> AList.update tid (ti\<lparr>status := s\<rparr>) ts')"

text \<open>
  Modelled from the spec: the accessors \<^verbatim>\<open>pid()\<close>, \<^verbatim>\<open>active_thread()\<close> and
  \<^verbatim>\<open>attached()\<close> are inherited from a base class that is not among the sources.
  The controller owns one pid, 0 when it owns none, and is attached exactly when
  that pid is not 0.
\<close>

definition pid :: "DebuggerCore \<Rightarrow> int" where
  "pid c = pid_m c"

definition active_thread :: "DebuggerCore \<Rightarrow> int" where
  "active_thread c = active_thread_m c"

definition attached :: "DebuggerCore \<Rightarrow> bool" where
  "attached c = (pid c \<noteq> 0)"

text \<open>
  Modelled from the spec: \<^verbatim>\<open>edb::EVENT_STATUS\<close> (absent \<^verbatim>\<open>Types.h\<close>), the three
  dispositions Stop, Continue and PassSignal under the names the code uses.
\<close>

datatype EVENT_STATUS = DEBUG_STOP | DEBUG_CONTINUE | DEBUG_EXCEPTION_NOT_HANDLED

text \<open>
  Modelled from the spec: \<^verbatim>\<open>DebugEvent\<close> (absent \<^verbatim>\<open>DebugEvent.h\<close>) carries the raw
  status, the pid and the reporting thread; \<^verbatim>\<open>thread()\<close> reads the latter.
\<close>

record DebugEvent =
  event_status :: int
  event_pid :: int
  event_tid :: int

definition make_DebugEvent :: "int \<Rightarrow> int \<Rightarrow> int \<Rightarrow> DebugEvent" where
  "make_DebugEvent s p t = \<lparr>event_status = s, event_pid = p, event_tid = t\<rparr>"

definition thread :: "DebugEvent \<Rightarrow> int" where
  "thread e = event_tid e"

section \<open>The operations of \<^verbatim>\<open>DebuggerCore\<close>\<close>

text \<open>
  \<^verbatim>\<open>detach()\<close> and \<^verbatim>\<open>kill()\<close>. The results of the \<^verbatim>\<open>ptrace\<close> and
  \<^verbatim>\<open>waitpid\<close> calls are ignored by the code.
\<close>

definition detach :: "DebuggerCore \<Rightarrow> os_call list \<times> DebuggerCore" where
  "detach c =
     (if attached c then
        ([Clear_breakpoints, Ptrace PT_DETACH (pid c) (Addr 0) 0],
         c\<lparr>pid_m := 0, threads_m := []\<rparr>)
      else ([], c))"

definition kill :: "DebuggerCore \<Rightarrow> os_call list \<times> DebuggerCore" where
  "kill c =
     (if attached c then
        ([Clear_breakpoints, Ptrace PT_KILL (pid c) (Addr 0) 0, Waitpid (pid c) WAIT_ANY],
         c\<lparr>pid_m := 0, threads_m := []\<rparr>)
      else ([], c))"

text \<open>
  \<^verbatim>\<open>attach(pid)\<close>; \<open>ret\<close> is what \<^verbatim>\<open>ptrace(PT_ATTACH, pid, 0, 0)\<close> returns.
\<close>

definition attach :: "int \<Rightarrow> int \<Rightarrow> DebuggerCore \<Rightarrow> bool \<times> os_call list \<times> DebuggerCore" where
  "attach ret p c =
     (case detach c of
        (calls, c1) \<Rightarrow>
          (if ret = 0 then
             (True, calls @ [Ptrace PT_ATTACH p (Addr 0) 0],
              c1\<lparr>pid_m := p, active_thread_m := p,
                  threads_m := insert_thread p thread_info_default []\<rparr>)
           else (False, calls @ [Ptrace PT_ATTACH p (Addr 0) 0], c1)))"

text \<open>
  \<^verbatim>\<open>wait_debug_event(event, msecs)\<close>; \<open>tid\<close>, \<open>st\<close> and \<open>timeout\<close> are what
  \<^verbatim>\<open>native::waitpid_timeout\<close> returns and stores. The event is an output argument,
  written only on success.
\<close>

definition wait_debug_event ::
  "DebugEvent \<Rightarrow> int \<Rightarrow> int \<times> int \<times> bool \<Rightarrow> DebuggerCore
     \<Rightarrow> bool \<times> DebugEvent \<times> os_call list \<times> DebuggerCore" where
  "wait_debug_event event msecs answer c =
     (case answer of
        (tid, st, timeout) \<Rightarrow>
          (if attached c then
             (if \<not> timeout \<and> 0 < tid then
                (let event' = make_DebugEvent st (pid c) tid
                 in (True, event', [Waitpid_timeout (pid c) 0 msecs],
                     c\<lparr>active_thread_m := thread event',
                        threads_m := set_thread_status tid st (threads_m c)\<rparr>))
              else (False, event, [Waitpid_timeout (pid c) 0 msecs], c))
           else (False, event, [], c)))"

text \<open>\<^verbatim>\<open>pause()\<close>: one \<^verbatim>\<open>SIGSTOP\<close> for every key of \<^verbatim>\<open>threads_\<close>.\<close>

definition pause :: "DebuggerCore \<Rightarrow> os_call list \<times> DebuggerCore" where
  "pause c =
     (if attached c then (map (\<lambda>(tid, ti). Kill_signal tid SIGSTOP) (threads_m c), c)
      else ([], c))"

text \<open>
  \<^verbatim>\<open>resume(status)\<close> and \<^verbatim>\<open>step(status)\<close> differ in the request only. The
  status of the active thread is read with \<^verbatim>\<open>threads_[tid]\<close>, and only when the
  disposition is \<^verbatim>\<open>DEBUG_EXCEPTION_NOT_HANDLED\<close>.
\<close>

definition advance :: "ptrace_request \<Rightarrow> EVENT_STATUS \<Rightarrow> DebuggerCore \<Rightarrow> os_call list \<times> DebuggerCore" where
  "advance request st c =
     (if attached c then
        (if st \<noteq> DEBUG_STOP then
           (let tid = active_thread c in
            if st = DEBUG_EXCEPTION_NOT_HANDLED then
              (case index_thread tid (threads_m c) of
                 (ti, ts) \<Rightarrow>
                   ([Ptrace request tid (Addr 1) (resume_code (status ti))],
                    c\<lparr>threads_m := ts\<rparr>))
            else ([Ptrace request tid (Addr 1) 0], c))
         else ([], c))
      else ([], c))"

definition resume :: "EVENT_STATUS \<Rightarrow> DebuggerCore \<Rightarrow> os_call list \<times> DebuggerCore" where
  "resume st c = advance PT_CONTINUE st c"

definition step :: "EVENT_STATUS \<Rightarrow> DebuggerCore \<Rightarrow> os_call list \<times> DebuggerCore" where
  "step st c = advance PT_STEP st c"

text \<open>
  \<^verbatim>\<open>open(path, cwd, args, tty)\<close>, as the parent runs it. \<open>fork_ret\<close> is what
  \<^verbatim>\<open>fork()\<close> returns, \<open>wait_ret\<close> and \<open>st\<close> what \<^verbatim>\<open>native::waitpid\<close> returns and
  stores. With \<open>fork_ret = 0\<close> the caller is the child, which traces itself, execs
  and otherwise aborts: \<^verbatim>\<open>open\<close> never returns there, which is the value
  \<open>None\<close>. The four arguments of the source are read by the child only. The
  function is \<open>open_process\<close> here, \<open>open\<close> being a reserved word.
\<close>

definition open_process ::
  "int \<Rightarrow> int \<Rightarrow> int \<Rightarrow> DebuggerCore \<Rightarrow> (bool \<times> os_call list \<times> DebuggerCore) option" where
  "open_process fork_ret wait_ret st c =
     (case detach c of
        (calls, c1) \<Rightarrow>
          (if fork_ret = 0 then None
           else if fork_ret = - 1 then Some (False, calls @ [Fork], c1\<lparr>pid_m := 0\<rparr>)
           else
             (let c2 = c1\<lparr>threads_m := []\<rparr>;
                  calls2 = calls @ [Fork, Waitpid fork_ret 0]
              in if wait_ret = - 1 then Some (False, calls2, c2)
                 else if \<not> WIFSTOPPED st \<or> WSTOPSIG st \<noteq> SIGTRAP then
                   (case detach c2 of (calls3, c3) \<Rightarrow> Some (False, calls2 @ calls3, c3))
                 else
                   Some (True, calls2,
                         c2\<lparr>threads_m :=
                              set_thread_status fork_ret st
                                (insert_thread fork_ret thread_info_default (threads_m c2)),
                            pid_m := fork_ret,
                            active_thread_m := fork_ret\<rparr>))))"

section \<open>Register snapshots\<close>

text \<open>
  Modelled from the spec: \<^verbatim>\<open>PlatformState\<close> (absent \<^verbatim>\<open>PlatformState.h\<close>), the
  register snapshot, with the members \<^verbatim>\<open>get_state\<close> and \<^verbatim>\<open>set_state\<close> touch:
  the general-purpose bank \<^verbatim>\<open>regs_\<close>, the floating-point bank \<^verbatim>\<open>fpregs_\<close> and
  the two segment bases. The host's \<^verbatim>\<open>struct reg\<close> and \<^verbatim>\<open>struct fpreg\<close> are the
  type parameters.

  Modelled from the spec: \<^verbatim>\<open>State::clear()\<close> (absent) leaves a zeroed snapshot.
\<close>

record ('r, 'f) PlatformState =
  regs_m :: 'r
  fpregs_m :: 'f
  gs_base :: nat
  fs_base :: nat

definition clear :: "('r::zero, 'f::zero) PlatformState \<Rightarrow> ('r, 'f) PlatformState" where
  "clear state = \<lparr>regs_m = 0, fpregs_m = 0, gs_base = 0, fs_base = 0\<rparr>"

text \<open>
  The host's side of the four register requests. The debuggee is the table of its
  traced threads, each with the contents of its two banks. A request on a thread
  that is not traced fails (the call returns -1 and transfers nothing); otherwise
  \<^verbatim>\<open>PT_GETREGS\<close> and \<^verbatim>\<open>PT_GETFPREGS\<close> copy a bank out and \<^verbatim>\<open>PT_SETREGS\<close>
  overwrites the general-purpose bank.
\<close>

type_synonym ('r, 'f) debuggee = "int \<Rightarrow> ('r \<times> 'f) option"

definition ptrace_getregs :: "int \<Rightarrow> ('r, 'f) debuggee \<Rightarrow> 'r option" where
  "ptrace_getregs tid d = (case d tid of None \<Rightarrow> None | Some (r, f) \<Rightarrow> Some r)"

definition ptrace_getfpregs :: "int \<Rightarrow> ('r, 'f) debuggee \<Rightarrow> 'f option" where
  "ptrace_getfpregs tid d = (case d tid of None \<Rightarrow> None | Some (r, f) \<Rightarrow> Some f)"

definition ptrace_setregs :: "int \<Rightarrow> 'r \<Rightarrow> ('r, 'f) debuggee \<Rightarrow> ('r, 'f) debuggee" where
  "ptrace_setregs tid r d = (case d tid of None \<Rightarrow> d | Some (r0, f0) \<Rightarrow> d(tid \<mapsto> (r, f0)))"

text \<open>
  \<^verbatim>\<open>get_state(state)\<close>: \<open>state\<close> is the caller's object, overwritten member by
  member; a bank whose request fails keeps what the object held.
\<close>

definition get_state ::
  "('r::zero, 'f::zero) PlatformState \<Rightarrow> DebuggerCore \<Rightarrow> ('r, 'f) debuggee
     \<Rightarrow> os_call list \<times> ('r, 'f) PlatformState" where
  "get_state state c d =
     (if attached c then
        (let state1 =
               (case ptrace_getregs (active_thread c) d of
                  Some r \<Rightarrow> state\<lparr>regs_m := r, gs_base := 0, fs_base := 0\<rparr>
                | None \<Rightarrow> state);
             state2 =
               (case ptrace_getfpregs (active_thread c) d of
                  Some f \<Rightarrow> state1\<lparr>fpregs_m := f\<rparr>
                | None \<Rightarrow> state1)
         in ([Ptrace PT_GETREGS (active_thread c) Regs_buffer 0,
              Ptrace PT_GETFPREGS (active_thread c) Fpregs_buffer 0], state2))
      else ([], clear state))"

text \<open>\<^verbatim>\<open>set_state(state)\<close>: the calls issued and the debuggee afterwards.\<close>

definition set_state ::
  "('r, 'f) PlatformState \<Rightarrow> DebuggerCore \<Rightarrow> ('r, 'f) debuggee
     \<Rightarrow> os_call list \<times> ('r, 'f) debuggee" where
  "set_state state c d =
     (if attached c then
        ([Ptrace PT_SETREGS (active_thread c) Regs_buffer 0],
         ptrace_setregs (active_thread c) (regs_m state) d)
      else ([], d))"

section \<open>Process records\<close>

text \<open>
  \<^verbatim>\<open>parent_pid(pid)\<close>. \<open>kd\<close> tells whether \<^verbatim>\<open>kvm_openfiles\<close> returned a handle,
  \<open>procs\<close> is what \<^verbatim>\<open>kvm_getprocs\<close> returned for \<open>pid\<close>: a null pointer, or the
  array of the records found (their number is \<^verbatim>\<open>rc\<close>). The code reads
  \<^verbatim>\<open>proc->p_ppid\<close> without looking at either; reading through a null pointer or
  past an empty array is undefined behaviour, a fault of its own kind here.
\<close>

datatype error = OsError | Null_pointer_read | Read_past_result

record kinfo_proc =
  p_pid :: int
  p_ppid :: int
  p_uid :: int
  p_comm :: string

definition parent_pid :: "int \<Rightarrow> bool \<Rightarrow> kinfo_proc list option \<Rightarrow> error + int" where
  "parent_pid p kd procs =
     (if kd then
        (case procs of
           None \<Rightarrow> Inl Null_pointer_read
         | Some [] \<Rightarrow> Inl Read_past_result
         | Some (proc # others) \<Rightarrow> Inr (p_ppid proc))
      else Inr 0)"

section \<open>The analyzer\<close>

text \<open>
  \<^verbatim>\<open>Analyzer.h\<close> declares \<^verbatim>\<open>analyze\<close>, \<^verbatim>\<open>functions\<close>, \<^verbatim>\<open>fix_overlaps\<close>,
  \<^verbatim>\<open>md5_region\<close>, \<^verbatim>\<open>do_analysis\<close> and the cache, a hash \<^verbatim>\<open>analysis_info_\<close> from
  a region's start address to its \<^verbatim>\<open>RegionInfo\<close>. Their bodies are not among the
  sources.

  Modelled from the spec: a \<^verbatim>\<open>Function\<close> has an entry, an end (exclusive), a type
  and a reference count; a \<^verbatim>\<open>FunctionMap\<close> is an ordered map from entry address to
  function, here the list of its functions in increasing order of entry. Addresses
  are only compared, so they are natural numbers.
\<close>

datatype FunctionType = Standard | Thunk | Unknown

record Function =
  entry :: nat
  end_address :: nat
  fn_type :: FunctionType
  references_in :: nat

type_synonym FunctionMap = "Function list"

text \<open>
  Modelled from the spec: a seeder or the walker inserts a function under its entry
  address; where the address is already a key the earlier function stays.
\<close>

fun fm_insert :: "Function \<Rightarrow> FunctionMap \<Rightarrow> FunctionMap" where
  "fm_insert f [] = [f]"
| "fm_insert f (g # m) =
     (if entry f < entry g then f # g # m
      else if entry f = entry g then g # m
      else g # fm_insert f m)"

text \<open>
  Modelled from the spec: the overlap resolver, a pass over the map in order of
  entry. For a function \<open>f1\<close> and each later \<open>f2\<close> with
  \<open>entry f1 < entry f2\<close> and \<open>end_address f1 > entry f2\<close>: when \<open>f2\<close> is
  entirely contained in \<open>f1\<close> and is a thunk both are kept, otherwise the end of
  \<open>f1\<close> is truncated to the entry of \<open>f2\<close>.
\<close>

definition contained :: "Function \<Rightarrow> Function \<Rightarrow> bool" where
  "contained f2 f1 = (entry f1 \<le> entry f2 \<and> end_address f2 \<le> end_address f1)"

fun resolve_against :: "Function \<Rightarrow> FunctionMap \<Rightarrow> Function" where
  "resolve_against f1 [] = f1"
| "resolve_against f1 (f2 # later) =
     (if entry f1 < entry f2 \<and> end_address f1 > entry f2 then
        (if contained f2 f1 \<and> fn_type f2 = Thunk then resolve_against f1 later
         else resolve_against (f1\<lparr>end_address := entry f2\<rparr>) later)
      else resolve_against f1 later)"


fun fix_overlaps :: "FunctionMap \<Rightarrow> FunctionMap" where
  "fix_overlaps [] = []"
| "fix_overlaps (f1 # later) = resolve_against f1 later # fix_overlaps later"

text \<open>
  \<^verbatim>\<open>RegionInfo\<close> as \<^verbatim>\<open>Analyzer.h\<close> declares it. Of a region only the start
  address, the key of the cache, matters here.
\<close>

record region =
  region_start :: nat
  region_end :: nat
  region_base :: nat
  region_name :: string

record RegionInfo =
  analysis :: FunctionMap
  md5 :: "nat list"
  fuzzy :: bool
  region :: region

type_synonym analysis_info = "nat \<Rightarrow> RegionInfo option"

text \<open>
  Modelled from the spec: the full analysis and \<^verbatim>\<open>analyze\<close>. The seeders and the
  walker are the function \<open>walker\<close>, which gives the functions found in the bytes
  \<open>mem\<close> of the region in the order of their discovery; \<open>md5_region\<close> is the
  fingerprint of those bytes; \<open>running\<close> tells whether the debuggee was running
  at any point of the pass. \<^verbatim>\<open>analyze\<close> computes the fingerprint, returns the
  cached result unchanged when the entry has this fingerprint and is not fuzzy, and
  otherwise analyses in full and overwrites the entry. \<open>functions_of\<close> is the
  accessor \<^verbatim>\<open>functions(region)\<close>.
\<close>

definition do_analysis :: "(region \<Rightarrow> nat list \<Rightarrow> Function list) \<Rightarrow> region \<Rightarrow> nat list \<Rightarrow> FunctionMap" where
  "do_analysis walker r mem = fix_overlaps (foldl (\<lambda>m f. fm_insert f m) [] (walker r mem))"

datatype analysis_path = Cache_hit | Full_analysis

definition analyze ::
  "(nat list \<Rightarrow> nat list) \<Rightarrow> (region \<Rightarrow> nat list \<Rightarrow> Function list) \<Rightarrow> bool \<Rightarrow> region
     \<Rightarrow> nat list \<Rightarrow> analysis_info \<Rightarrow> analysis_path \<times> analysis_info" where
  "analyze md5_region walker running r mem info =
     (let current = md5_region mem;
          full = (Full_analysis,
                  info(region_start r \<mapsto>
                    \<lparr>analysis = do_analysis walker r mem, md5 = current,
                     fuzzy = running, region = r\<rparr>))
      in case info (region_start r) of
           Some cached \<Rightarrow>
             if md5 cached = current \<and> fuzzy cached = False then (Cache_hit, info)
             else full
         | None \<Rightarrow> full)"

definition functions_of :: "region \<Rightarrow> analysis_info \<Rightarrow> FunctionMap" where
  "functions_of r info = (case info (region_start r) of Some cached \<Rightarrow> analysis cached | None \<Rightarrow> [])"

section \<open>The controller's invariant\<close>

text \<open>
  A controller that owns no process has an empty thread registry.
\<close>

definition registry_inv :: "DebuggerCore \<Rightarrow> bool" where
  "registry_inv c = (pid_m c = 0 \<longrightarrow> threads_m c = [])"

section \<open>Resume and step\<close>

lemma index_thread_known:
  "map_of ts tid = Some ti \<Longrightarrow> index_thread tid ts = (ti, ts)"
  by (simp add: index_thread_def)

text \<open>
  C2. On an attached controller \<^verbatim>\<open>resume\<close> and \<^verbatim>\<open>step\<close> with the disposition
  Stop issue no call and leave the controller as it was; with Continue they issue
  exactly one \<^verbatim>\<open>PT_CONTINUE\<close> (respectively \<^verbatim>\<open>PT_STEP\<close>) on the active thread
  with signal code 0; with PassSignal, the active thread being registered with raw
  status \<open>status ti\<close>, they issue that one request with the code
  \<^verbatim>\<open>WTERMSIG\<close> if \<^verbatim>\<open>WIFSIGNALED\<close>, else \<^verbatim>\<open>WSTOPSIG\<close> if \<^verbatim>\<open>WIFSTOPPED\<close>, else 0.
  Whatever the disposition, every call issued is a \<^verbatim>\<open>ptrace\<close> on the active thread.
\<close>

theorem resume_step_dispositions:
  assumes "attached c"
  shows "resume DEBUG_STOP c = ([], c) \<and> step DEBUG_STOP c = ([], c)
       \<and> resume DEBUG_CONTINUE c = ([Ptrace PT_CONTINUE (active_thread c) (Addr 1) 0], c)
       \<and> step DEBUG_CONTINUE c = ([Ptrace PT_STEP (active_thread c) (Addr 1) 0], c)
       \<and> (map_of (threads_m c) (active_thread c) = Some ti \<longrightarrow>
            resume DEBUG_EXCEPTION_NOT_HANDLED c =
              ([Ptrace PT_CONTINUE (active_thread c) (Addr 1)
                  (if WIFSIGNALED (status ti) then WTERMSIG (status ti)
                   else if WIFSTOPPED (status ti) then WSTOPSIG (status ti) else 0)], c)
          \<and> step DEBUG_EXCEPTION_NOT_HANDLED c =
              ([Ptrace PT_STEP (active_thread c) (Addr 1)
                  (if WIFSIGNALED (status ti) then WTERMSIG (status ti)
                   else if WIFSTOPPED (status ti) then WSTOPSIG (status ti) else 0)], c))
       \<and> (\<forall>call \<in> set (fst (resume st c)) \<union> set (fst (step st c)).
            \<exists>request code. call = Ptrace request (active_thread c) (Addr 1) code)"
proof -
  have stop: "advance request DEBUG_STOP c = ([], c)" for request
    by (simp add: advance_def)
  have cont: "advance request DEBUG_CONTINUE c = ([Ptrace request (active_thread c) (Addr 1) 0], c)"
    for request
    using assms by (simp add: advance_def)
  have pass: "advance request DEBUG_EXCEPTION_NOT_HANDLED c =
      ([Ptrace request (active_thread c) (Addr 1) (resume_code (status ti))], c)"
    if "map_of (threads_m c) (active_thread c) = Some ti" for request
    using assms that by (simp add: advance_def index_thread_known)
  have only: "\<exists>rq code. call = Ptrace rq (active_thread c) (Addr 1) code"
    if "call \<in> set (fst (advance request st c))" for request call
    using that by (cases st) (auto simp: advance_def Let_def split: prod.splits if_splits)
  show ?thesis
    unfolding resume_def step_def
    using stop cont pass only by (auto simp: resume_code_def)
qed

theorem resume_step_dispositions_witness:
  "attached \<lparr>page_size_m = 4096, pid_m = 100, active_thread_m = 100,
             threads_m = [(100, \<lparr>status = 1407\<rparr>)]\<rparr>
   \<and> WIFSTOPPED 1407 \<and> \<not> WIFSIGNALED 1407
   \<and> resume DEBUG_EXCEPTION_NOT_HANDLED
        \<lparr>page_size_m = 4096, pid_m = 100, active_thread_m = 100,
         threads_m = [(100, \<lparr>status = 1407\<rparr>)]\<rparr>
      = ([Ptrace PT_CONTINUE 100 (Addr 1) 5],
         \<lparr>page_size_m = 4096, pid_m = 100, active_thread_m = 100,
          threads_m = [(100, \<lparr>status = 1407\<rparr>)]\<rparr>)
   \<and> step DEBUG_STOP
        \<lparr>page_size_m = 4096, pid_m = 100, active_thread_m = 100,
         threads_m = [(100, \<lparr>status = 1407\<rparr>)]\<rparr>
      = ([], \<lparr>page_size_m = 4096, pid_m = 100, active_thread_m = 100,
              threads_m = [(100, \<lparr>status = 1407\<rparr>)]\<rparr>)"
proof -
  let ?c = "\<lparr>page_size_m = 4096, pid_m = 100, active_thread_m = 100,
             threads_m = [(100, \<lparr>status = 1407\<rparr>)]\<rparr>"
  have a: "attached ?c"
    by (simp add: attached_def pid_def)
  have w: "WIFSTOPPED 1407 \<and> \<not> WIFSIGNALED 1407 \<and> WSTOPSIG 1407 = 5"
    by (simp add: WIFSTOPPED_def WIFSIGNALED_def WSTOPSIG_def W_STATUS_def)
  have m: "map_of (threads_m ?c) (active_thread ?c) = Some \<lparr>status = 1407\<rparr>"
    by (simp add: active_thread_def)
  from resume_step_dispositions [OF a, of "\<lparr>status = 1407\<rparr>"] m w a show ?thesis
    by (simp add: active_thread_def)
qed

section \<open>Opening a process\<close>

lemma detach_detached: "\<not> attached (snd (detach c)) \<and> pid_m (snd (detach c)) = 0"
  by (simp add: detach_def attached_def pid_def)

lemma detach_threads: "registry_inv c \<Longrightarrow> threads_m (snd (detach c)) = []"
  by (simp add: detach_def attached_def pid_def registry_inv_def)

lemma set_thread_status_fresh:
  "set_thread_status tid s (insert_thread tid ti []) = [(tid, ti\<lparr>status := s\<rparr>)]"
  by (simp add: set_thread_status_def insert_thread_def index_thread_def)

lemma map_of_set_thread_status:
  "map_of (set_thread_status tid s ts) =
     (map_of ts)(tid \<mapsto> (case map_of ts tid of Some ti \<Rightarrow> ti | None \<Rightarrow> thread_info_default)\<lparr>status := s\<rparr>)"
  by (auto simp: set_thread_status_def index_thread_def update_conv' split: option.splits)

text \<open>
  C1. In the parent (\<open>fork_ret \<noteq> 0\<close>) \<^verbatim>\<open>open\<close> returns, and it returns success
  exactly when the fork succeeded, the blocking wait succeeded and the first status
  is a stop with signal \<^verbatim>\<open>SIGTRAP\<close>. On success the controller is attached to the
  spawned pid, that pid is the active thread, the registry is the single entry of
  that pid with the first raw status (a stop), and no request that would set the
  debuggee running has been issued. On failure, whichever of the three caused it, the
  controller is detached.
\<close>

theorem open_outcome:
  assumes "fork_ret \<noteq> 0"
  shows "\<exists>ok calls c'.
           open_process fork_ret wait_ret st c = Some (ok, calls, c')
         \<and> (ok \<longleftrightarrow> fork_ret \<noteq> - 1 \<and> wait_ret \<noteq> - 1 \<and> WIFSTOPPED st \<and> WSTOPSIG st = SIGTRAP)
         \<and> (ok \<longrightarrow> attached c' \<and> pid c' = fork_ret \<and> active_thread c' = fork_ret
                  \<and> threads_m c' = [(fork_ret, \<lparr>status = st\<rparr>)]
                  \<and> (\<forall>call \<in> set calls. \<forall>tid a code.
                        call \<noteq> Ptrace PT_CONTINUE tid a code \<and> call \<noteq> Ptrace PT_STEP tid a code))
         \<and> (\<not> ok \<longrightarrow> \<not> attached c' \<and> pid c' = 0)"
proof -
  obtain calls c1 where d: "detach c = (calls, c1)"
    by (cases "detach c")
  have c1: "pid_m c1 = 0"
    using detach_detached [of c] d by simp
  have calls: "\<forall>call \<in> set calls. \<forall>tid a code.
      call \<noteq> Ptrace PT_CONTINUE tid a code \<and> call \<noteq> Ptrace PT_STEP tid a code"
    using d by (auto simp: detach_def split: if_splits)
  have again: "detach (c1\<lparr>threads_m := []\<rparr>) = ([], c1\<lparr>threads_m := []\<rparr>)"
    using c1 by (simp add: detach_def attached_def pid_def)
  show ?thesis
    using assms d c1 calls again
    by (simp add: open_process_def Let_def attached_def pid_def active_thread_def
        set_thread_status_fresh thread_info_default_def)
qed

theorem open_outcome_witness:
  "(100 :: int) \<noteq> 0
   \<and> open_process 100 0 1407
        \<lparr>page_size_m = 4096, pid_m = 0, active_thread_m = 0, threads_m = []\<rparr>
      = Some (True, [Fork, Waitpid 100 0],
              \<lparr>page_size_m = 4096, pid_m = 100, active_thread_m = 100,
               threads_m = [(100, \<lparr>status = 1407\<rparr>)]\<rparr>)
   \<and> open_process 100 0 7
        \<lparr>page_size_m = 4096, pid_m = 0, active_thread_m = 0, threads_m = []\<rparr>
      = Some (False, [Fork, Waitpid 100 0],
              \<lparr>page_size_m = 4096, pid_m = 0, active_thread_m = 0, threads_m = []\<rparr>)"
proof -
  let ?c = "\<lparr>page_size_m = 4096, pid_m = 0, active_thread_m = 0, threads_m = []\<rparr>"
  have w: "WIFSTOPPED 1407 \<and> WSTOPSIG 1407 = SIGTRAP \<and> \<not> WIFSTOPPED 7"
    by (simp add: WIFSTOPPED_def WSTOPSIG_def SIGTRAP_def)
  have d: "detach ?c = ([], ?c)"
    by (simp add: detach_def attached_def pid_def)
  from open_outcome [of 100 0 1407 ?c] open_outcome [of 100 0 7 ?c] w d show ?thesis
    by (auto simp: open_process_def attached_def pid_def)
qed

section \<open>Attaching\<close>

text \<open>
  C5, as the code has it. \<^verbatim>\<open>attach(pid)\<close> is accepted in every state and has no
  error for a controller that is already attached: it first detaches (an attached
  controller clears the breakpoints, issues \<^verbatim>\<open>PT_DETACH\<close> on the old pid and
  forgets pid and registry; a detached one does nothing), then issues
  \<^verbatim>\<open>PT_ATTACH\<close> on the new pid. It succeeds exactly when that request returns 0;
  then the principal thread, numerically the pid, is the only entry of the registry
  and the active thread. When the request fails the controller is left detached.
\<close>

theorem attach_detaches_first:
  "attach ret p c =
     (ret = 0, fst (detach c) @ [Ptrace PT_ATTACH p (Addr 0) 0],
      if ret = 0 then
        (snd (detach c))\<lparr>pid_m := p, active_thread_m := p, threads_m := [(p, thread_info_default)]\<rparr>
      else snd (detach c))
   \<and> (attached c \<longrightarrow>
        detach c = ([Clear_breakpoints, Ptrace PT_DETACH (pid c) (Addr 0) 0],
                    c\<lparr>pid_m := 0, threads_m := []\<rparr>))
   \<and> (\<not> attached c \<longrightarrow> detach c = ([], c))
   \<and> \<not> attached (snd (detach c))"
  by (auto simp: attach_def detach_def insert_thread_def attached_def pid_def split: prod.splits)

theorem attach_detaches_first_witness:
  "attached \<lparr>page_size_m = 4096, pid_m = 100, active_thread_m = 100,
             threads_m = [(100, \<lparr>status = 1407\<rparr>)]\<rparr>
   \<and> attach (- 1) 200
        \<lparr>page_size_m = 4096, pid_m = 100, active_thread_m = 100,
         threads_m = [(100, \<lparr>status = 1407\<rparr>)]\<rparr>
      = (False,
         [Clear_breakpoints, Ptrace PT_DETACH 100 (Addr 0) 0, Ptrace PT_ATTACH 200 (Addr 0) 0],
         \<lparr>page_size_m = 4096, pid_m = 0, active_thread_m = 100, threads_m = []\<rparr>)"
proof -
  let ?c = "\<lparr>page_size_m = 4096, pid_m = 100, active_thread_m = 100,
             threads_m = [(100, \<lparr>status = 1407\<rparr>)]\<rparr>"
  have a: "attached ?c"
    by (simp add: attached_def pid_def)
  from attach_detaches_first [of "- 1" 200 ?c] a show ?thesis
    by (simp add: pid_def)
qed

text \<open>
  C5 as stated fails: a controller attached to pid 100 that is asked to attach to
  pid 200 reports success, has detached pid 100 and now owns pid 200.
\<close>

theorem attach_while_attached_counterexample:
  "attached \<lparr>page_size_m = 4096, pid_m = 100, active_thread_m = 100,
             threads_m = [(100, \<lparr>status = 1407\<rparr>)]\<rparr>
   \<and> attach 0 200
        \<lparr>page_size_m = 4096, pid_m = 100, active_thread_m = 100,
         threads_m = [(100, \<lparr>status = 1407\<rparr>)]\<rparr>
      = (True,
         [Clear_breakpoints, Ptrace PT_DETACH 100 (Addr 0) 0, Ptrace PT_ATTACH 200 (Addr 0) 0],
         \<lparr>page_size_m = 4096, pid_m = 200, active_thread_m = 200,
          threads_m = [(200, thread_info_default)]\<rparr>)"
  by (simp add: attach_def detach_def insert_thread_def attached_def pid_def)

section \<open>Operations on a detached controller\<close>




section \<open>Waiting for an event\<close>

text \<open>
  C6. When the controller is attached and the wait reports, without timing out, a
  positive thread id, \<^verbatim>\<open>wait_debug_event\<close> returns true with the event built from
  the raw status, the pid and that thread id; in the controller it returns, the
  active thread is the event's thread, the registry holds the raw status under that
  thread id, gains that key if it was unknown, and is unchanged for every other
  thread. On a timeout, or when the wait fails (a thread id that is not positive),
  it returns false and leaves the event and the controller as they were.
\<close>

theorem wait_debug_event_registry:
  "(attached c \<and> \<not> timeout \<and> 0 < tid \<longrightarrow>
      (\<exists>c'. wait_debug_event event msecs (tid, st, timeout) c =
               (True, make_DebugEvent st (pid c) tid, [Waitpid_timeout (pid c) 0 msecs], c')
           \<and> thread (make_DebugEvent st (pid c) tid) = tid
           \<and> active_thread c' = tid
           \<and> map_option status (map_of (threads_m c') tid) = Some st
           \<and> dom (map_of (threads_m c')) = insert tid (dom (map_of (threads_m c)))
           \<and> (\<forall>t. t \<noteq> tid \<longrightarrow> map_of (threads_m c') t = map_of (threads_m c) t)
           \<and> pid_m c' = pid_m c \<and> page_size_m c' = page_size_m c))
   \<and> (timeout \<or> tid \<le> 0 \<longrightarrow>
        (\<exists>calls. wait_debug_event event msecs (tid, st, timeout) c = (False, event, calls, c)))"
  by (auto simp: wait_debug_event_def Let_def make_DebugEvent_def thread_def active_thread_def
      map_of_set_thread_status)

theorem wait_debug_event_registry_witness:
  "attached \<lparr>page_size_m = 4096, pid_m = 100, active_thread_m = 100,
             threads_m = [(100, \<lparr>status = 1407\<rparr>)]\<rparr>
   \<and> wait_debug_event \<lparr>event_status = 0, event_pid = 0, event_tid = 0\<rparr> 50 (101, 4479, False)
        \<lparr>page_size_m = 4096, pid_m = 100, active_thread_m = 100,
         threads_m = [(100, \<lparr>status = 1407\<rparr>)]\<rparr>
      = (True, \<lparr>event_status = 4479, event_pid = 100, event_tid = 101\<rparr>,
         [Waitpid_timeout 100 0 50],
         \<lparr>page_size_m = 4096, pid_m = 100, active_thread_m = 101,
          threads_m = [(100, \<lparr>status = 1407\<rparr>), (101, \<lparr>status = 4479\<rparr>)]\<rparr>)
   \<and> wait_debug_event \<lparr>event_status = 0, event_pid = 0, event_tid = 0\<rparr> 50 (0, 0, True)
        \<lparr>page_size_m = 4096, pid_m = 100, active_thread_m = 100,
         threads_m = [(100, \<lparr>status = 1407\<rparr>)]\<rparr>
      = (False, \<lparr>event_status = 0, event_pid = 0, event_tid = 0\<rparr>,
         [Waitpid_timeout 100 0 50],
         \<lparr>page_size_m = 4096, pid_m = 100, active_thread_m = 100,
          threads_m = [(100, \<lparr>status = 1407\<rparr>)]\<rparr>)"
proof -
  let ?c = "\<lparr>page_size_m = 4096, pid_m = 100, active_thread_m = 100,
             threads_m = [(100, \<lparr>status = 1407\<rparr>)]\<rparr>"
  let ?e = "\<lparr>event_status = 0, event_pid = 0, event_tid = 0\<rparr>"
  have a: "attached ?c"
    by (simp add: attached_def pid_def)
  from wait_debug_event_registry
         [where c = ?c and timeout = False and tid = 101 and st = 4479 and event = ?e
            and msecs = 50]
       wait_debug_event_registry
         [where c = ?c and timeout = True and tid = 0 and st = 0 and event = ?e and msecs = 50]
       a
  show ?thesis
    by (simp add: wait_debug_event_def make_DebugEvent_def thread_def pid_def
        set_thread_status_def index_thread_def thread_info_default_def)
qed

section \<open>The invariant is preserved\<close>

lemma advance_inv: "registry_inv c \<Longrightarrow> registry_inv (snd (advance request d c))"
  by (auto simp: advance_def Let_def registry_inv_def attached_def pid_def split: prod.splits)

lemma open_inv:
  assumes "registry_inv c" and "open_process fork_ret wait_ret st c = Some r"
  shows "registry_inv (snd (snd r))
       \<and> (\<not> fst r \<longrightarrow> pid_m (snd (snd r)) = 0 \<and> threads_m (snd (snd r)) = [])"
proof -
  obtain calls c1 where d: "detach c = (calls, c1)"
    by (cases "detach c")
  have c1: "pid_m c1 = 0" "threads_m c1 = []"
    using detach_detached [of c] detach_threads [OF assms(1)] d by simp_all
  have again: "detach (c1\<lparr>threads_m := []\<rparr>) = ([], c1\<lparr>threads_m := []\<rparr>)"
    using c1 by (simp add: detach_def attached_def pid_def)
  show ?thesis
    using assms(2) d c1 again
    by (auto simp: open_process_def Let_def registry_inv_def split: if_splits)
qed

lemma attach_inv:
  assumes "registry_inv c"
  shows "(p \<noteq> 0 \<longrightarrow> registry_inv (snd (snd (attach ret p c))))
       \<and> (\<not> fst (attach ret p c) \<longrightarrow>
            pid_m (snd (snd (attach ret p c))) = 0 \<and> threads_m (snd (snd (attach ret p c))) = [])"
  using detach_detached [of c] detach_threads [OF assms]
  by (auto simp: attach_def registry_inv_def split: prod.splits)

lemma kill_cleared:
  "registry_inv c \<Longrightarrow> pid_m (snd (kill c)) = 0 \<and> threads_m (snd (kill c)) = []"
  by (simp add: kill_def attached_def pid_def registry_inv_def)

lemma wait_inv:
  "registry_inv c \<Longrightarrow> registry_inv (snd (snd (snd (wait_debug_event event msecs answer c))))"
  by (auto simp: wait_debug_event_def Let_def registry_inv_def attached_def pid_def
      split: prod.splits)

text \<open>
  C10. The controller is attached exactly when its pid is not 0, and the invariant
  \<open>registry_inv\<close> (a controller whose pid is 0 has an empty registry) is kept by
  \<^verbatim>\<open>open\<close>, \<^verbatim>\<open>attach\<close> (to a pid other than 0: pids are positive),
  \<^verbatim>\<open>detach\<close>, \<^verbatim>\<open>kill\<close>, \<^verbatim>\<open>wait_debug_event\<close>, \<^verbatim>\<open>resume\<close>, \<^verbatim>\<open>step\<close> and
  \<^verbatim>\<open>pause\<close>. From a state with the invariant, \<^verbatim>\<open>detach\<close> and \<^verbatim>\<open>kill\<close> always
  leave the pid 0 and the registry empty, and so do an \<^verbatim>\<open>open\<close> and an
  \<^verbatim>\<open>attach\<close> that fail.
\<close>

theorem registry_inv_preserved:
  assumes "registry_inv c"
  shows "(attached c \<longleftrightarrow> pid_m c \<noteq> 0)
       \<and> (\<forall>r. open_process fork_ret wait_ret st c = Some r \<longrightarrow>
             registry_inv (snd (snd r))
           \<and> (\<not> fst r \<longrightarrow> pid_m (snd (snd r)) = 0 \<and> threads_m (snd (snd r)) = []))
       \<and> (p \<noteq> 0 \<longrightarrow> registry_inv (snd (snd (attach ret p c))))
       \<and> (\<not> fst (attach ret p c) \<longrightarrow>
            pid_m (snd (snd (attach ret p c))) = 0 \<and> threads_m (snd (snd (attach ret p c))) = [])
       \<and> pid_m (snd (detach c)) = 0 \<and> threads_m (snd (detach c)) = []
       \<and> pid_m (snd (kill c)) = 0 \<and> threads_m (snd (kill c)) = []
       \<and> registry_inv (snd (snd (snd (wait_debug_event event msecs answer c))))
       \<and> registry_inv (snd (resume d c)) \<and> registry_inv (snd (step d c))
       \<and> snd (pause c) = c"
proof -
  have a: "attached c \<longleftrightarrow> pid_m c \<noteq> 0"
    by (simp add: attached_def pid_def)
  have p: "snd (pause c) = c"
    by (simp add: pause_def)
  show ?thesis
    using a p open_inv [OF assms] attach_inv [OF assms] detach_detached [of c]
      detach_threads [OF assms] kill_cleared [OF assms] wait_inv [OF assms]
      advance_inv [OF assms]
    by (simp add: resume_def step_def)
qed

theorem registry_inv_preserved_witness:
  "registry_inv \<lparr>page_size_m = 4096, pid_m = 100, active_thread_m = 100,
                 threads_m = [(100, \<lparr>status = 1407\<rparr>)]\<rparr>
   \<and> registry_inv (snd (snd (attach 0 200
        \<lparr>page_size_m = 4096, pid_m = 100, active_thread_m = 100,
         threads_m = [(100, \<lparr>status = 1407\<rparr>)]\<rparr>)))
   \<and> snd (snd (attach (- 1) 200
        \<lparr>page_size_m = 4096, pid_m = 100, active_thread_m = 100,
         threads_m = [(100, \<lparr>status = 1407\<rparr>)]\<rparr>))
      = \<lparr>page_size_m = 4096, pid_m = 0, active_thread_m = 100, threads_m = []\<rparr>
   \<and> snd (kill \<lparr>page_size_m = 4096, pid_m = 100, active_thread_m = 100,
                 threads_m = [(100, \<lparr>status = 1407\<rparr>)]\<rparr>)
      = \<lparr>page_size_m = 4096, pid_m = 0, active_thread_m = 100, threads_m = []\<rparr>"
proof -
  let ?c = "\<lparr>page_size_m = 4096, pid_m = 100, active_thread_m = 100,
             threads_m = [(100, \<lparr>status = 1407\<rparr>)]\<rparr>"
  have i: "registry_inv ?c"
    by (simp add: registry_inv_def)
  from registry_inv_preserved [OF i, where p = 200 and ret = 0] i show ?thesis
    by (simp add: attach_def detach_def kill_def attached_def pid_def)
qed

section \<open>Register round trip\<close>

lemma set_state_get_state_regs:
  assumes "attached c" and "d (active_thread c) = Some (r0, f0)"
  shows "snd (get_state s' c (snd (set_state s c d))) =
           s'\<lparr>regs_m := regs_m s, gs_base := 0, fs_base := 0, fpregs_m := f0\<rparr>"
  using assms
  by (simp add: set_state_def get_state_def ptrace_setregs_def ptrace_getregs_def
      ptrace_getfpregs_def)

text \<open>
  C3 fails on the code. \<^verbatim>\<open>set_state\<close> issues \<^verbatim>\<open>PT_SETREGS\<close> only; the
  floating-point bank is never written. With a thread whose banks hold 0, writing a
  snapshot with general-purpose bank 7 and floating-point bank 9 and reading the
  state back gives the general-purpose bank 7 and the floating-point bank 0.
\<close>

theorem set_state_get_state_fpregs:
  "fst (set_state \<lparr>regs_m = 7 :: nat, fpregs_m = 9 :: nat, gs_base = 0, fs_base = 0\<rparr>
         \<lparr>page_size_m = 4096, pid_m = 100, active_thread_m = 100,
          threads_m = [(100, \<lparr>status = 1407\<rparr>)]\<rparr>
         [100 \<mapsto> (0, 0)])
     = [Ptrace PT_SETREGS 100 Regs_buffer 0]
   \<and> snd (get_state \<lparr>regs_m = 7 :: nat, fpregs_m = 9 :: nat, gs_base = 0, fs_base = 0\<rparr>
         \<lparr>page_size_m = 4096, pid_m = 100, active_thread_m = 100,
          threads_m = [(100, \<lparr>status = 1407\<rparr>)]\<rparr>
         (snd (set_state \<lparr>regs_m = 7 :: nat, fpregs_m = 9 :: nat, gs_base = 0, fs_base = 0\<rparr>
            \<lparr>page_size_m = 4096, pid_m = 100, active_thread_m = 100,
             threads_m = [(100, \<lparr>status = 1407\<rparr>)]\<rparr>
            [100 \<mapsto> (0, 0)])))
     = \<lparr>regs_m = 7, fpregs_m = 0, gs_base = 0, fs_base = 0\<rparr>"
  by (simp add: set_state_def get_state_def attached_def pid_def active_thread_def
      ptrace_setregs_def ptrace_getregs_def ptrace_getfpregs_def)

section \<open>The parent of a process\<close>

text \<open>
  C7 fails on the code. When the process query finds nothing, \<^verbatim>\<open>parent_pid\<close>
  still reads the parent pid through the result: through the null pointer, or past
  the end of an array of no records. It never reports an \<^verbatim>\<open>OsError\<close>.
\<close>

theorem parent_pid_zero_processes:
  "parent_pid 99999 True None = Inl Null_pointer_read
   \<and> parent_pid 99999 True (Some []) = Inl Read_past_result"
  by (simp add: parent_pid_def)

section \<open>Overlap resolution\<close>






















section \<open>The analysis cache\<close>

lemma analyze_entry:
  "\<exists>cached. snd (analyze md5_region walker running r mem info) (region_start r) = Some cached
     \<and> md5 cached = md5_region mem
     \<and> (fst (analyze md5_region walker running r mem info) = Full_analysis \<longrightarrow>
          fuzzy cached = running \<and> analysis cached = do_analysis walker r mem)
     \<and> (fst (analyze md5_region walker running r mem info) = Cache_hit \<longrightarrow>
          \<not> fuzzy cached \<and> snd (analyze md5_region walker running r mem info) = info)"
  by (auto simp: analyze_def Let_def split: option.splits)

lemma analyze_path:
  "fst (analyze md5_region walker running r mem info) = Cache_hit \<longleftrightarrow>
     (\<exists>cached. info (region_start r) = Some cached \<and> md5 cached = md5_region mem \<and> \<not> fuzzy cached)"
  by (auto simp: analyze_def Let_def split: option.splits)

lemma analysis_path_cases: "p \<noteq> Cache_hit \<longleftrightarrow> p = Full_analysis"
  by (cases p) simp_all


text \<open>
  C9, as the model has it. Two back-to-back calls of \<^verbatim>\<open>analyze\<close> on a region
  whose bytes are unchanged give the same function map. After the first call the cache entry of the region
  carries the fingerprint of those bytes, and it is fuzzy exactly when the first call
  analysed in full while the debuggee was running. When the entry is not fuzzy the
  second call is a cache hit and returns the cache, and with it the function map,
  unchanged. An entry recorded as fuzzy is never returned from the cache: whatever
  the bytes, \<^verbatim>\<open>analyze\<close> then analyses in full again.
\<close>

theorem analyze_twice_same_bytes:
  "(let first = analyze md5_region walker running1 r mem info0;
        second = analyze md5_region walker running2 r mem (snd first)
    in functions_of r (snd second) = functions_of r (snd first)
     \<and> (\<exists>cached. snd first (region_start r) = Some cached
          \<and> md5 cached = md5_region mem
          \<and> (fuzzy cached \<longleftrightarrow> fst first = Full_analysis \<and> running1)
          \<and> (\<not> fuzzy cached \<longrightarrow> fst second = Cache_hit \<and> snd second = snd first)
          \<and> (fuzzy cached \<longrightarrow> fst second = Full_analysis)))
   \<and> (info (region_start r) = Some stored \<and> fuzzy stored \<longrightarrow>
        fst (analyze md5_region walker running r mem' info) = Full_analysis
      \<and> functions_of r (snd (analyze md5_region walker running r mem' info))
          = do_analysis walker r mem')"
proof -
  let ?first = "analyze md5_region walker running1 r mem info0"
  let ?second = "analyze md5_region walker running2 r mem (snd ?first)"
  obtain cached where c: "snd ?first (region_start r) = Some cached"
    "md5 cached = md5_region mem"
    "fst ?first = Full_analysis \<longrightarrow> fuzzy cached = running1 \<and> analysis cached = do_analysis walker r mem"
    "fst ?first = Cache_hit \<longrightarrow> \<not> fuzzy cached"
    using analyze_entry [of md5_region walker running1 r mem info0] by blast
  have fz: "fuzzy cached \<longleftrightarrow> fst ?first = Full_analysis \<and> running1"
    using c(3,4) by (cases "fst ?first") auto
  have hit: "fst ?second = Cache_hit \<and> snd ?second = snd ?first" if "\<not> fuzzy cached"
  proof -
    have "fst ?second = Cache_hit"
      using that c(1,2) by (simp add: analyze_path)
    then show ?thesis
      using analyze_entry [of md5_region walker running2 r mem "snd ?first"] by auto
  qed
  have miss: "fst ?second = Full_analysis" if "fuzzy cached"
    using that c(1) by (simp add: analyze_path flip: analysis_path_cases)
  have same: "functions_of r (snd ?second) = functions_of r (snd ?first)"
  proof (cases "fuzzy cached")
    case False
    then show ?thesis using hit by simp
  next
    case True
    then have "fst ?second = Full_analysis" by (rule miss)
    then obtain again where "snd ?second (region_start r) = Some again"
      "analysis again = do_analysis walker r mem"
      using analyze_entry [of md5_region walker running2 r mem "snd ?first"] by auto
    moreover have "analysis cached = do_analysis walker r mem"
      using True fz c(3) by blast
    ultimately show ?thesis
      using c(1) by (simp add: functions_of_def)
  qed
  have never: "fst (analyze md5_region walker running r mem' info) = Full_analysis
      \<and> functions_of r (snd (analyze md5_region walker running r mem' info)) = do_analysis walker r mem'"
    if "info (region_start r) = Some stored \<and> fuzzy stored"
    using that by (simp add: analyze_def Let_def functions_of_def)
  show ?thesis
    unfolding Let_def using same c(1,2) fz hit miss never by blast
qed


theorem analyze_twice_same_bytes_witness:
  "analyze (\<lambda>mem. [sum_list mem mod 256])
     (\<lambda>r mem. [\<lparr>entry = 4096, end_address = 4160, fn_type = Standard, references_in = 0\<rparr>])
     False
     \<lparr>region_start = 4096, region_end = 8192, region_base = 4096, region_name = ''text''\<rparr>
     [85, 72, 137, 229] Map.empty
   = (Full_analysis,
      [4096 \<mapsto> \<lparr>analysis = [\<lparr>entry = 4096, end_address = 4160, fn_type = Standard, references_in = 0\<rparr>],
                 md5 = [11], fuzzy = False,
                 region = \<lparr>region_start = 4096, region_end = 8192, region_base = 4096,
                           region_name = ''text''\<rparr>\<rparr>])
   \<and> analyze (\<lambda>mem. [sum_list mem mod 256])
       (\<lambda>r mem. [\<lparr>entry = 4096, end_address = 4160, fn_type = Standard, references_in = 0\<rparr>])
       False
       \<lparr>region_start = 4096, region_end = 8192, region_base = 4096, region_name = ''text''\<rparr>
       [85, 72, 137, 229]
       [4096 \<mapsto> \<lparr>analysis = [\<lparr>entry = 4096, end_address = 4160, fn_type = Standard, references_in = 0\<rparr>],
                 md5 = [11], fuzzy = False,
                 region = \<lparr>region_start = 4096, region_end = 8192, region_base = 4096,
                           region_name = ''text''\<rparr>\<rparr>]
   = (Cache_hit,
      [4096 \<mapsto> \<lparr>analysis = [\<lparr>entry = 4096, end_address = 4160, fn_type = Standard, references_in = 0\<rparr>],
                 md5 = [11], fuzzy = False,
                 region = \<lparr>region_start = 4096, region_end = 8192, region_base = 4096,
                           region_name = ''text''\<rparr>\<rparr>])
   \<and> fst (analyze (\<lambda>mem. [sum_list mem mod 256])
       (\<lambda>r mem. [\<lparr>entry = 4096, end_address = 4160, fn_type = Standard, references_in = 0\<rparr>])
       False
       \<lparr>region_start = 4096, region_end = 8192, region_base = 4096, region_name = ''text''\<rparr>
       [85, 72, 137, 229]
       [4096 \<mapsto> \<lparr>analysis = [\<lparr>entry = 4096, end_address = 4160, fn_type = Standard, references_in = 0\<rparr>],
                 md5 = [11], fuzzy = True,
                 region = \<lparr>region_start = 4096, region_end = 8192, region_base = 4096,
                           region_name = ''text''\<rparr>\<rparr>])
   = Full_analysis"
proof -
  let ?md5 = "\<lambda>mem :: nat list. [sum_list mem mod 256]"
  let ?walker = "\<lambda>(r :: region) (mem :: nat list).
      [\<lparr>entry = 4096, end_address = 4160, fn_type = Standard, references_in = 0\<rparr>]"
  let ?r = "\<lparr>region_start = 4096, region_end = 8192, region_base = 4096, region_name = ''text''\<rparr>"
  from analyze_twice_same_bytes
         [where md5_region = ?md5 and walker = ?walker and ?running1.0 = False
            and ?running2.0 = False and r = ?r and mem = "[85, 72, 137, 229]"
            and ?info0.0 = Map.empty]
  show ?thesis
    by (simp add: analyze_def do_analysis_def Let_def)
qed

text \<open>
  C9 as stated fails: the second call is not always a cache hit. A first call that
  analyses in full while the debuggee is running records a fuzzy entry; the second
  call on the same bytes finds the fingerprint unchanged, does not return the cache
  and analyses in full again, rewriting the entry (here as not fuzzy). The function
  map is the same after both calls.
\<close>

theorem analyze_fuzzy_first_counterexample:
  "analyze (\<lambda>mem. [sum_list mem mod 256])
     (\<lambda>r mem. [\<lparr>entry = 4096, end_address = 4160, fn_type = Standard, references_in = 0\<rparr>])
     True
     \<lparr>region_start = 4096, region_end = 8192, region_base = 4096, region_name = ''text''\<rparr>
     [85, 72, 137, 229] Map.empty
   = (Full_analysis,
      [4096 \<mapsto> \<lparr>analysis = [\<lparr>entry = 4096, end_address = 4160, fn_type = Standard, references_in = 0\<rparr>],
                 md5 = [11], fuzzy = True,
                 region = \<lparr>region_start = 4096, region_end = 8192, region_base = 4096,
                           region_name = ''text''\<rparr>\<rparr>])
   \<and> analyze (\<lambda>mem. [sum_list mem mod 256])
       (\<lambda>r mem. [\<lparr>entry = 4096, end_address = 4160, fn_type = Standard, references_in = 0\<rparr>])
       False
       \<lparr>region_start = 4096, region_end = 8192, region_base = 4096, region_name = ''text''\<rparr>
       [85, 72, 137, 229]
       [4096 \<mapsto> \<lparr>analysis = [\<lparr>entry = 4096, end_address = 4160, fn_type = Standard, references_in = 0\<rparr>],
                 md5 = [11], fuzzy = True,
                 region = \<lparr>region_start = 4096, region_end = 8192, region_base = 4096,
                           region_name = ''text''\<rparr>\<rparr>]
   = (Full_analysis,
      [4096 \<mapsto> \<lparr>analysis = [\<lparr>entry = 4096, end_address = 4160, fn_type = Standard, references_in = 0\<rparr>],
                 md5 = [11], fuzzy = False,
                 region = \<lparr>region_start = 4096, region_end = 8192, region_base = 4096,
                           region_name = ''text''\<rparr>\<rparr>])
   \<and> Full_analysis \<noteq> Cache_hit"
  by (simp add: analyze_def do_analysis_def Let_def)

end
